theory Spec2Isabelle
  imports Complex_Main
begin

section \<open>Deep Mine Empire: the economy engine of App and the Minigame countdown\<close>

text \<open>
  The source is a React application. Its engine is the set of callbacks of the App component
  (gainXp, getCurrentResource, mineResource, the auto-mining interval, sellResource,
  buyEquipment, buyMoneyUpgrade, spendSkillPoint, handleMinigameClose and the effect that
  opens the minigame), over one state object \<open>gameState\<close>.

  Conventions of the embedding:
  \<^item> a JavaScript number that holds an amount (money, xp, depth, quantities, powers,
    multipliers) is a \<open>real\<close>: arithmetic is exact, the rounding of IEEE doubles is not
    modelled; a number that only ever counts (level, skill points, skill levels) is an
    \<open>int\<close>, an ownership count or upgrade level (the exponent of \<open>Math.pow\<close>) a \<open>nat\<close>;
  \<open>Math.floor\<close> is the floor of a real;
  \<^item> a callback reads the state of the render that created it (\<open>gameState\<close>) and queues
    updater functions \<open>prev => ...\<close>; the model runs a callback on the state \<open>g\<close> it was
    created from and applies its updaters, in the order they are queued, starting from
    \<open>prev = g\<close>;
  \<^item> a callback that returns before calling \<open>setGameState\<close> leaves the state as it is: the
    model returns \<open>g\<close>;
  \<^item> the \<open>while\<close> loop of gainXp may run forever, so everything that runs it returns an
    \<open>option\<close>, \<open>None\<close> standing for a loop that never ends;
  \<^item> \<open>Math.random()\<close> is a parameter \<open>rnd\<close> of mineResource, a real in \<open>[0, 1)\<close>;
  \<^item> fields that only feed the display (names, colours, icons, descriptions, the effect
    text of a skill) are left out of the catalog records.
\<close>

subsection \<open>Game types\<close>

record Resource =
  r_id :: string
  r_value :: real
  r_unlockDepth :: real

datatype EquipmentType = Pickaxe | Drill | Automation

record Equipment =
  e_id :: string
  e_type :: EquipmentType
  e_power :: real
  e_cost :: real
  e_owned :: nat

record Upgrades =
  clickMultiplier :: real
  autoMultiplier :: real
  efficiencyBonus :: real
  sellPriceMultiplier :: real
  xpGainMultiplier :: real
  rareResourceChance :: real

record MoneyUpgrade =
  mu_id :: string
  mu_cost :: real
  mu_effect :: "Upgrades \<Rightarrow> Upgrades"
  mu_level :: nat

record Skill =
  sk_id :: string
  sk_maxLevel :: int
  sk_getCost :: "int \<Rightarrow> int"
  sk_dependencies :: "string list option"

record GameState =
  level :: int
  xp :: real
  xpToNextLevel :: real
  skillPoints :: int
  money :: real
  coal :: real
  iron :: real
  gold :: real
  diamond :: real
  depth :: real
  totalMined :: real
  clickPower :: real
  autoMineRate :: real
  equipment :: "Equipment list"
  upgrades :: Upgrades
  moneyUpgrades :: "MoneyUpgrade list"
  skills :: "string \<rightharpoonup> int"

subsection \<open>Catalogs\<close>

definition RESOURCES :: "Resource list" where
  "RESOURCES =
    [\<lparr>r_id = ''coal'', r_value = 1, r_unlockDepth = 0\<rparr>,
     \<lparr>r_id = ''iron'', r_value = 5, r_unlockDepth = 10\<rparr>,
     \<lparr>r_id = ''gold'', r_value = 25, r_unlockDepth = 25\<rparr>,
     \<lparr>r_id = ''diamond'', r_value = 100, r_unlockDepth = 50\<rparr>]"

definition INITIAL_EQUIPMENT :: "Equipment list" where
  "INITIAL_EQUIPMENT =
    [\<lparr>e_id = ''basic_pickaxe'', e_type = Pickaxe, e_power = 1, e_cost = 50, e_owned = 0\<rparr>,
     \<lparr>e_id = ''steel_pickaxe'', e_type = Pickaxe, e_power = 5, e_cost = 200, e_owned = 0\<rparr>,
     \<lparr>e_id = ''auto_miner'', e_type = Automation, e_power = 1, e_cost = 300, e_owned = 0\<rparr>,
     \<lparr>e_id = ''auto_drill'', e_type = Automation, e_power = 5, e_cost = 1500, e_owned = 0\<rparr>,
     \<lparr>e_id = ''mega_miner'', e_type = Automation, e_power = 25, e_cost = 7500, e_owned = 0\<rparr>,
     \<lparr>e_id = ''drill'', e_type = Drill, e_power = 10, e_cost = 1000, e_owned = 0\<rparr>,
     \<lparr>e_id = ''mega_drill'', e_type = Drill, e_power = 50, e_cost = 5000, e_owned = 0\<rparr>]"

definition INITIAL_MONEY_UPGRADES :: "MoneyUpgrade list" where
  "INITIAL_MONEY_UPGRADES =
    [\<lparr>mu_id = ''click_power_1'', mu_cost = 100,
      mu_effect = (\<lambda>u. u\<lparr>clickMultiplier := clickMultiplier u * 1.1\<rparr>), mu_level = 0\<rparr>,
     \<lparr>mu_id = ''auto_speed_1'', mu_cost = 250,
      mu_effect = (\<lambda>u. u\<lparr>autoMultiplier := autoMultiplier u * 1.1\<rparr>), mu_level = 0\<rparr>,
     \<lparr>mu_id = ''sell_bonus_1'', mu_cost = 500,
      mu_effect = (\<lambda>u. u\<lparr>sellPriceMultiplier := sellPriceMultiplier u * 1.05\<rparr>),
      mu_level = 0\<rparr>]"

definition SKILL_TREE :: "Skill list" where
  "SKILL_TREE =
    [\<lparr>sk_id = ''click_power_boost'', sk_maxLevel = 10,
      sk_getCost = (\<lambda>level. level + 1), sk_dependencies = None\<rparr>,
     \<lparr>sk_id = ''auto_mine_speed'', sk_maxLevel = 10,
      sk_getCost = (\<lambda>level. level + 1), sk_dependencies = None\<rparr>,
     \<lparr>sk_id = ''xp_gain'', sk_maxLevel = 5,
      sk_getCost = (\<lambda>level. level * 2 + 1),
      sk_dependencies = Some [''click_power_boost'', ''auto_mine_speed'']\<rparr>,
     \<lparr>sk_id = ''rare_resource_chance'', sk_maxLevel = 5,
      sk_getCost = (\<lambda>level. level * 2 + 2),
      sk_dependencies = Some [''auto_mine_speed'']\<rparr>,
     \<lparr>sk_id = ''minigame_bonus'', sk_maxLevel = 3,
      sk_getCost = (\<lambda>level. level * 3 + 2),
      sk_dependencies = Some [''xp_gain'']\<rparr>]"

text \<open>The state \<open>useState\<close> starts App with.\<close>

definition initialState :: GameState where
  "initialState =
    \<lparr>level = 1, xp = 0, xpToNextLevel = 100, skillPoints = 0, money = 0,
     coal = 0, iron = 0, gold = 0, diamond = 0, depth = 0, totalMined = 0,
     clickPower = 1, autoMineRate = 0, equipment = INITIAL_EQUIPMENT,
     upgrades = \<lparr>clickMultiplier = 1, autoMultiplier = 1, efficiencyBonus = 1,
       sellPriceMultiplier = 1, xpGainMultiplier = 1, rareResourceChance = 0\<rparr>,
     moneyUpgrades = INITIAL_MONEY_UPGRADES, skills = Map.empty\<rparr>"

subsection \<open>getCurrentResource\<close>

text \<open>
  \<open>availableResources[availableResources.length - 1] || RESOURCES[0]\<close>: the last resource
  whose unlock depth the depth has reached, the first of the catalog when there is none.
\<close>

definition getCurrentResource :: "real \<Rightarrow> Resource" where
  "getCurrentResource d =
    (let availableResources = filter (\<lambda>r. d \<ge> r_unlockDepth r) RESOURCES
     in if availableResources = [] then RESOURCES ! 0 else last availableResources)"

subsection \<open>gainXp\<close>

text \<open>
  The loop of the updater of gainXp, on its four local variables. It is written as the
  source writes it; nothing in it bounds the number of rounds, so it is a partial function.
\<close>

partial_function (option) levelUpLoop ::
  "real \<Rightarrow> int \<Rightarrow> real \<Rightarrow> int \<Rightarrow> (real \<times> int \<times> real \<times> int) option" where
  "levelUpLoop newXp newLevel newXpToNextLevel newSkillPoints =
    (if newXp \<ge> newXpToNextLevel
     then levelUpLoop (newXp - newXpToNextLevel) (newLevel + 1)
            (of_int \<lfloor>newXpToNextLevel * 1.5\<rfloor>) (newSkillPoints + 1)
     else Some (newXp, newLevel, newXpToNextLevel, newSkillPoints))"

text \<open>
  \<open>gainXp g amount\<close> is the updater that the callback gainXp of the render of state \<open>g\<close>
  queues: the multiplier is read from \<open>g\<close>, everything else from \<open>prev\<close>.
\<close>

definition gainXp :: "GameState \<Rightarrow> real \<Rightarrow> GameState \<Rightarrow> GameState option" where
  "gainXp g amount prev =
    (let xpGained = amount * xpGainMultiplier (upgrades g)
     in case levelUpLoop (xp prev + xpGained) (level prev) (xpToNextLevel prev)
               (skillPoints prev) of
          None \<Rightarrow> None
        | Some (newXp, newLevel, newXpToNextLevel, newSkillPoints) \<Rightarrow>
            Some (prev\<lparr>xp := newXp, level := newLevel,
                       xpToNextLevel := newXpToNextLevel,
                       skillPoints := newSkillPoints\<rparr>))"

subsection \<open>Mining\<close>

text \<open>
  \<open>prev[resource.id]\<close>: the state field named by a resource id. The ids come from
  RESOURCES, so only the four resource fields are ever named.
\<close>

definition resourceAmount :: "GameState \<Rightarrow> string \<Rightarrow> real" where
  "resourceAmount s rid =
    (if rid = ''coal'' then coal s
     else if rid = ''iron'' then iron s
     else if rid = ''gold'' then gold s
     else if rid = ''diamond'' then diamond s
     else 0)"

definition setResourceAmount :: "GameState \<Rightarrow> string \<Rightarrow> real \<Rightarrow> GameState" where
  "setResourceAmount s rid v =
    (if rid = ''coal'' then s\<lparr>coal := v\<rparr>
     else if rid = ''iron'' then s\<lparr>iron := v\<rparr>
     else if rid = ''gold'' then s\<lparr>gold := v\<rparr>
     else if rid = ''diamond'' then s\<lparr>diamond := v\<rparr>
     else s)"

definition mineResource :: "real \<Rightarrow> GameState \<Rightarrow> GameState option" where
  "mineResource rnd g =
    (let resource = getCurrentResource (depth g);
         power0 = clickPower g * clickMultiplier (upgrades g);
         power = (if rnd < rareResourceChance (upgrades g) / 100 then power0 * 2 else power0)
     in map_option
          (\<lambda>prev. (setResourceAmount prev (r_id resource)
                      (resourceAmount prev (r_id resource) + power))
                   \<lparr>totalMined := totalMined prev + power,
                    depth := depth prev + power * 0.1\<rparr>)
          (gainXp g power g))"

text \<open>One firing of the auto-mining interval; the interval exists only while the rate is not 0.\<close>

definition autoMineTick :: "GameState \<Rightarrow> GameState option" where
  "autoMineTick g =
    (if autoMineRate g = 0 then Some g
     else
       let resource = getCurrentResource (depth g);
           power = autoMineRate g * autoMultiplier (upgrades g)
       in map_option
            (\<lambda>prev. (setResourceAmount prev (r_id resource)
                        (resourceAmount prev (r_id resource) + power))
                     \<lparr>totalMined := totalMined prev + power,
                      depth := depth prev + power * 0.05\<rparr>)
            (gainXp g (power / 2) g))"

subsection \<open>Selling and buying\<close>

definition sellResource :: "GameState \<Rightarrow> string \<Rightarrow> real \<Rightarrow> GameState option" where
  "sellResource g resourceId amount =
    (case find (\<lambda>r. r_id r = resourceId) RESOURCES of
       None \<Rightarrow> Some g
     | Some resource \<Rightarrow>
         if resourceAmount g resourceId < amount then Some g
         else
           let moneyGained = amount * r_value resource * sellPriceMultiplier (upgrades g)
           in map_option
                (\<lambda>prev. (setResourceAmount prev resourceId
                            (resourceAmount prev resourceId - amount))
                         \<lparr>money := money prev + moneyGained\<rparr>)
                (gainXp g (moneyGained / 10) g))"

definition newClickPower :: "Equipment list \<Rightarrow> real" where
  "newClickPower updatedEquipment =
    1 + foldl (\<lambda>sum e. sum + e_power e * real (e_owned e)) 0
          (filter (\<lambda>e. e_type e = Pickaxe \<or> e_type e = Drill) updatedEquipment)"

definition newAutoMineRate :: "Equipment list \<Rightarrow> real" where
  "newAutoMineRate updatedEquipment =
    foldl (\<lambda>sum e. sum + e_power e * real (e_owned e)) 0
      (filter (\<lambda>e. e_type e = Automation) updatedEquipment)"

definition buyEquipment :: "GameState \<Rightarrow> string \<Rightarrow> GameState" where
  "buyEquipment g equipmentId =
    (case find (\<lambda>e. e_id e = equipmentId) (equipment g) of
       None \<Rightarrow> g
     | Some eq \<Rightarrow>
         let cost = e_cost eq * 1.5 ^ e_owned eq
         in if money g < cost then g
            else
              let newState = g\<lparr>money := money g - cost\<rparr>;
                  updatedEquipment =
                    map (\<lambda>e. if e_id e = equipmentId then e\<lparr>e_owned := e_owned e + 1\<rparr> else e)
                      (equipment newState)
              in newState\<lparr>equipment := updatedEquipment,
                          clickPower := newClickPower updatedEquipment,
                          autoMineRate := newAutoMineRate updatedEquipment\<rparr>)"

definition buyMoneyUpgrade :: "GameState \<Rightarrow> string \<Rightarrow> GameState" where
  "buyMoneyUpgrade g upgradeId =
    (case find (\<lambda>u. mu_id u = upgradeId) (moneyUpgrades g) of
       None \<Rightarrow> g
     | Some upgrade \<Rightarrow>
         let cost = mu_cost upgrade * 2 ^ mu_level upgrade
         in if money g < cost then g
            else g\<lparr>money := money g - cost,
                   upgrades := mu_effect upgrade (upgrades g),
                   moneyUpgrades :=
                     map (\<lambda>u. if mu_id u = upgradeId then u\<lparr>mu_level := mu_level u + 1\<rparr> else u)
                       (moneyUpgrades g)\<rparr>)"

subsection \<open>The skill tree\<close>

text \<open>\<open>gameState.skills[skillId] || 0\<close>: a skill that was never bought has level 0.\<close>

definition skillLevel :: "(string \<rightharpoonup> int) \<Rightarrow> string \<Rightarrow> int" where
  "skillLevel sk k = (case sk k of None \<Rightarrow> 0 | Some v \<Rightarrow> v)"

text \<open>
  The block "Apply skill effects" of spendSkillPoint. It reads \<open>newSkills[skillId]\<close>, the
  entry the caller has just written. There is no branch for \<open>minigame_bonus\<close>.
\<close>

definition applySkillEffects ::
  "string \<Rightarrow> (string \<rightharpoonup> int) \<Rightarrow> Upgrades \<Rightarrow> Upgrades" where
  "applySkillEffects skillId newSkills newUpgrades =
    (if skillId = ''click_power_boost''
     then newUpgrades\<lparr>clickMultiplier := 1 + real_of_int (skillLevel newSkills skillId) * 0.05\<rparr>
     else if skillId = ''auto_mine_speed''
     then newUpgrades\<lparr>autoMultiplier := 1 + real_of_int (skillLevel newSkills skillId) * 0.05\<rparr>
     else if skillId = ''xp_gain''
     then newUpgrades\<lparr>xpGainMultiplier := 1 + real_of_int (skillLevel newSkills skillId) * 0.1\<rparr>
     else if skillId = ''rare_resource_chance''
     then newUpgrades\<lparr>rareResourceChance := real_of_int (skillLevel newSkills skillId)\<rparr>
     else newUpgrades)"

definition spendSkillPoint :: "GameState \<Rightarrow> string \<Rightarrow> GameState" where
  "spendSkillPoint g skillId =
    (case find (\<lambda>s. sk_id s = skillId) SKILL_TREE of
       None \<Rightarrow> g
     | Some skill \<Rightarrow>
         if skillPoints g \<le> 0 then g
         else
           let currentLevel = skillLevel (skills g) skillId
           in if currentLevel \<ge> sk_maxLevel skill then g
              else
                let cost = sk_getCost skill currentLevel
                in if skillPoints g < cost then g
                   else
                     let newSkills = (skills g)(skillId \<mapsto> currentLevel + 1);
                         newUpgrades = applySkillEffects skillId newSkills (upgrades g)
                     in g\<lparr>skillPoints := skillPoints g - cost,
                          skills := newSkills,
                          upgrades := newUpgrades\<rparr>)"

text \<open>
  What the skill panel computes for each skill before it renders the Upgrade button; the
  button is disabled unless \<open>canAfford\<close> holds.
\<close>

definition dependenciesMet :: "GameState \<Rightarrow> Skill \<Rightarrow> bool" where
  "dependenciesMet g skill =
    (case sk_dependencies skill of
       None \<Rightarrow> True
     | Some deps \<Rightarrow> list_all (\<lambda>dep. skillLevel (skills g) dep > 0) deps)"

definition canAfford :: "GameState \<Rightarrow> Skill \<Rightarrow> bool" where
  "canAfford g skill =
    (let level = skillLevel (skills g) (sk_id skill);
         cost = sk_getCost skill level
     in skillPoints g \<ge> cost \<and> level < sk_maxLevel skill \<and> dependenciesMet g skill)"

subsection \<open>The minigame: trigger, countdown and result\<close>

datatype MinigameResult = Win | Lose

definition handleMinigameClose :: "GameState \<Rightarrow> MinigameResult \<Rightarrow> GameState option" where
  "handleMinigameClose g result =
    (case result of
       Lose \<Rightarrow> Some (g\<lparr>money := 0\<rparr>)
     | Win \<Rightarrow> gainXp g 50 g)"

text \<open>
  handleMinigameClose also closes the dialog (\<open>setMinigameOpen(false)\<close>); the function
  above is what it does to \<open>gameState\<close>.

  The two pieces of App state next to \<open>gameState\<close> that the trigger effect reads and
  writes. \<open>opensMinigame\<close> says whether one run of the effect calls
  \<open>setMinigameOpen(true)\<close>; \<open>checkMinigameTrigger\<close> is the run itself.
\<close>

record TriggerState =
  lastDepthForMinigame :: int
  minigameOpen :: bool

definition opensMinigame :: "real \<Rightarrow> TriggerState \<Rightarrow> bool" where
  "opensMinigame d t =
    (if \<lfloor>d\<rfloor> > lastDepthForMinigame t
     then (if \<lfloor>d\<rfloor> mod 10 = 0 \<and> d > 0 then True else False)
     else False)"

definition checkMinigameTrigger :: "real \<Rightarrow> TriggerState \<Rightarrow> TriggerState" where
  "checkMinigameTrigger d t =
    (if \<lfloor>d\<rfloor> > lastDepthForMinigame t
     then
       let t' = t\<lparr>lastDepthForMinigame := \<lfloor>d\<rfloor>\<rparr>
       in if \<lfloor>d\<rfloor> mod 10 = 0 \<and> d > 0 then t'\<lparr>minigameOpen := True\<rparr> else t'
     else t)"


text \<open>
  The Minigame component. App passes it \<open>open\<close> and the depth, nothing else of the state.
  When it opens, its effect sets \<open>timeLeft\<close>; a timer then fires once a second.
\<close>

record MinigameProps =
  mp_open :: bool
  mp_depth :: real

definition minigameProps :: "GameState \<Rightarrow> TriggerState \<Rightarrow> MinigameProps" where
  "minigameProps g t = \<lparr>mp_open = minigameOpen t, mp_depth = depth g\<rparr>"

definition startTimeLeft :: "MinigameProps \<Rightarrow> int \<Rightarrow> int" where
  "startTimeLeft props timeLeft = (if \<not> mp_open props then timeLeft else 10)"

definition timerTick :: "int \<Rightarrow> int \<times> MinigameResult option" where
  "timerTick prev = (if prev \<le> 1 then (0, Some Win) else (prev - 1, None))"

text \<open>The number of firings of the timer up to and including the one that reports the win.\<close>

function secondsToWin :: "int \<Rightarrow> nat" where
  "secondsToWin timeLeft =
    (case timerTick timeLeft of
       (_, Some _) \<Rightarrow> 1
     | (next, None) \<Rightarrow> 1 + secondsToWin next)"
  by pat_completeness auto
termination
  by (relation "measure nat") (auto simp: timerTick_def split: if_splits)

declare secondsToWin.simps [simp del]

subsection \<open>Purchases in a row\<close>

text \<open>
  \<open>buyTimes n\<close> calls buyEquipment \<open>n\<close> times on the same equipment; \<open>costCharged k\<close> is the
  money that the call number \<open>k\<close> (counted from 0) takes away.
\<close>

fun buyTimes :: "nat \<Rightarrow> string \<Rightarrow> GameState \<Rightarrow> GameState" where
  "buyTimes 0 equipmentId g = g"
| "buyTimes (Suc n) equipmentId g = buyEquipment (buyTimes n equipmentId g) equipmentId"

definition costCharged :: "nat \<Rightarrow> string \<Rightarrow> GameState \<Rightarrow> real" where
  "costCharged k equipmentId g =
     money (buyTimes k equipmentId g) - money (buyTimes (Suc k) equipmentId g)"

subsection \<open>The states the game reaches\<close>

text \<open>
  \<open>reachable\<close> collects the states that the callbacks produce from the initial state, with
  any arguments and any value of \<open>Math.random()\<close>. \<open>wellFormed\<close> is an invariant of these
  states: the threshold is at least 100, the experience is below it, the sell-price and
  experience multipliers are at least 1, no skill level is negative, and no money upgrade
  lowers those two multipliers below 1.
\<close>

definition multipliersOk :: "Upgrades \<Rightarrow> bool" where
  "multipliersOk u \<longleftrightarrow> 1 \<le> sellPriceMultiplier u \<and> 1 \<le> xpGainMultiplier u"

definition wellFormed :: "GameState \<Rightarrow> bool" where
  "wellFormed s \<longleftrightarrow>
     100 \<le> xpToNextLevel s \<and> xp s < xpToNextLevel s
     \<and> multipliersOk (upgrades s)
     \<and> (\<forall>k v. skills s k = Some v \<longrightarrow> 0 \<le> v)
     \<and> list_all (\<lambda>u. \<forall>ups. multipliersOk ups \<longrightarrow> multipliersOk (mu_effect u ups))
          (moneyUpgrades s)"

inductive reachable :: "GameState \<Rightarrow> bool" where
  start: "reachable initialState"
| mine: "reachable g \<Longrightarrow> mineResource rnd g = Some g' \<Longrightarrow> reachable g'"
| tick: "reachable g \<Longrightarrow> autoMineTick g = Some g' \<Longrightarrow> reachable g'"
| sell: "reachable g \<Longrightarrow> sellResource g resourceId amount = Some g' \<Longrightarrow> reachable g'"
| buy: "reachable g \<Longrightarrow> reachable (buyEquipment g equipmentId)"
| upgrade: "reachable g \<Longrightarrow> reachable (buyMoneyUpgrade g upgradeId)"
| skill: "reachable g \<Longrightarrow> reachable (spendSkillPoint g skillId)"
| close: "reachable g \<Longrightarrow> handleMinigameClose g result = Some g' \<Longrightarrow> reachable g'"

section \<open>Properties\<close>

subsection \<open>Auxiliary facts\<close>

lemma getCurrentResource_cases:
  "getCurrentResource d =
    (if 50 \<le> d then RESOURCES ! 3
     else if 25 \<le> d then RESOURCES ! 2
     else if 10 \<le> d then RESOURCES ! 1
     else RESOURCES ! 0)"
  by (simp add: getCurrentResource_def RESOURCES_def)

lemma levelUpLoop_stop:
  "newXp < t \<Longrightarrow> levelUpLoop newXp l t sp = Some (newXp, l, t, sp)"
  by (subst levelUpLoop.simps) simp

lemma levelUpLoop_step:
  "t \<le> newXp \<Longrightarrow>
    levelUpLoop newXp l t sp =
      levelUpLoop (newXp - t) (l + 1) (of_int \<lfloor>t * 1.5\<rfloor>) (sp + 1)"
  by (subst levelUpLoop.simps) simp





subsection \<open>C5: the resource mined at a depth\<close>

text \<open>
  C5. For every depth \<open>d \<ge> 0\<close>, getCurrentResource returns a resource of the catalog that
  is unlocked at \<open>d\<close>, whose unlock depth is the largest among the unlocked ones, and it is
  the only resource of the catalog with that property; at depth 0 it is coal.
\<close>

theorem getCurrentResource_largest_unlocked:
  assumes "0 \<le> d"
  shows "getCurrentResource d \<in> set RESOURCES
       \<and> r_unlockDepth (getCurrentResource d) \<le> d
       \<and> (\<forall>r \<in> set RESOURCES. r_unlockDepth r \<le> d \<longrightarrow>
             r_unlockDepth r \<le> r_unlockDepth (getCurrentResource d))
       \<and> (\<forall>r \<in> set RESOURCES.
             r_unlockDepth r \<le> d
             \<and> (\<forall>r' \<in> set RESOURCES. r_unlockDepth r' \<le> d \<longrightarrow>
                    r_unlockDepth r' \<le> r_unlockDepth r)
             \<longrightarrow> r = getCurrentResource d)
       \<and> getCurrentResource 0 = \<lparr>r_id = ''coal'', r_value = 1, r_unlockDepth = 0\<rparr>"
  using assms by (simp add: getCurrentResource_cases RESOURCES_def)

theorem getCurrentResource_largest_unlocked_witness:
  "r_id (getCurrentResource 30) = ''gold''
   \<and> r_unlockDepth (getCurrentResource 30) \<le> 30
   \<and> getCurrentResource 30 \<in> set RESOURCES
   \<and> getCurrentResource 0 = \<lparr>r_id = ''coal'', r_value = 1, r_unlockDepth = 0\<rparr>"
proof -
  have h: "(0::real) \<le> 30" by simp
  from getCurrentResource_largest_unlocked[OF h] show ?thesis
    by (simp add: getCurrentResource_cases RESOURCES_def)
qed

subsection \<open>C6: losing the minigame\<close>

text \<open>
  C6. For every state, closing the minigame with the result \<open>lose\<close> sets the money to zero
  and changes no other field: the four resource quantities, the depth, the total mined, the
  equipment with its ownership counts, the click power and auto-mine rate, the skill levels,
  the level, experience, threshold and skill points, the multipliers and the money
  upgrades are those of the state before.
\<close>

theorem handleMinigameClose_lose_zeroes_money_only:
  "handleMinigameClose g Lose = Some (g\<lparr>money := 0\<rparr>)
   \<and> (\<exists>g'. handleMinigameClose g Lose = Some g'
        \<and> money g' = 0
        \<and> coal g' = coal g \<and> iron g' = iron g \<and> gold g' = gold g \<and> diamond g' = diamond g
        \<and> depth g' = depth g \<and> totalMined g' = totalMined g
        \<and> equipment g' = equipment g
        \<and> clickPower g' = clickPower g \<and> autoMineRate g' = autoMineRate g
        \<and> skills g' = skills g
        \<and> level g' = level g \<and> xp g' = xp g \<and> xpToNextLevel g' = xpToNextLevel g
        \<and> skillPoints g' = skillPoints g
        \<and> upgrades g' = upgrades g \<and> moneyUpgrades g' = moneyUpgrades g)"
  by (simp add: handleMinigameClose_def)

subsection \<open>C8: the first click\<close>

text \<open>
  C8. From the initial state, whatever \<open>Math.random()\<close> returns, one call of mineResource
  ends with coal 1, total mined 1, depth 0.1 and experience 1, every other field as it was
  (no rare find is possible, the chance being 0, and no level is gained).
\<close>

theorem mineResource_from_initialState:
  assumes "0 \<le> rnd" and "rnd < 1"
  shows "mineResource rnd initialState =
           Some (initialState\<lparr>xp := 1, coal := 1, totalMined := 1, depth := 0.1\<rparr>)"
  using assms
  by (simp add: mineResource_def gainXp_def initialState_def levelUpLoop_stop
      getCurrentResource_cases RESOURCES_def setResourceAmount_def resourceAmount_def)

theorem mineResource_from_initialState_witness:
  "mineResource (1 / 2) initialState =
     Some (initialState\<lparr>xp := 1, coal := 1, totalMined := 1, depth := 0.1\<rparr>)"
proof -
  have h1: "(0::real) \<le> 1 / 2" and h2: "(1::real) / 2 < 1" by simp_all
  from mineResource_from_initialState[OF h1 h2] show ?thesis .
qed

subsection \<open>C3: the level-up loop\<close>




subsection \<open>C4: the cost of equipment\<close>

lemma find_map_owned:
  "find (\<lambda>e. e_id e = i)
     (map (\<lambda>e. if e_id e = i then e\<lparr>e_owned := e_owned e + 1\<rparr> else e) xs) =
   map_option (\<lambda>e. e\<lparr>e_owned := e_owned e + 1\<rparr>) (find (\<lambda>e. e_id e = i) xs)"
  by (induction xs) simp_all

lemma buyEquipment_accepted:
  assumes "find (\<lambda>e. e_id e = i) (equipment g) = Some e"
    and "\<not> money g < e_cost e * 1.5 ^ e_owned e"
  shows "money (buyEquipment g i) = money g - e_cost e * 1.5 ^ e_owned e"
    and "find (\<lambda>e. e_id e = i) (equipment (buyEquipment g i)) =
           Some (e\<lparr>e_owned := e_owned e + 1\<rparr>)"
  using assms by (simp_all add: buyEquipment_def Let_def find_map_owned)

lemma buyEquipment_rejected:
  assumes "find (\<lambda>e. e_id e = i) (equipment g) = Some e"
    and "money g < e_cost e * 1.5 ^ e_owned e"
  shows "buyEquipment g i = g"
  using assms by (simp add: buyEquipment_def Let_def)

lemma buyEquipment_rejected_iff:
  assumes "find (\<lambda>e. e_id e = i) (equipment g) = Some e"
  shows "buyEquipment g i = g \<longleftrightarrow> money g < e_cost e * 1.5 ^ e_owned e"
proof
  assume same: "buyEquipment g i = g"
  show "money g < e_cost e * 1.5 ^ e_owned e"
  proof (rule ccontr)
    assume "\<not> money g < e_cost e * 1.5 ^ e_owned e"
    from buyEquipment_accepted(2)[OF assms this] same assms
    have "Some (e\<lparr>e_owned := e_owned e + 1\<rparr>) = Some e" by simp
    then have "e_owned (e\<lparr>e_owned := e_owned e + 1\<rparr>) = e_owned e" by simp
    then show False by simp
  qed
next
  assume "money g < e_cost e * 1.5 ^ e_owned e"
  with assms show "buyEquipment g i = g" by (rule buyEquipment_rejected)
qed

lemma buyTimes_owned:
  assumes "find (\<lambda>e. e_id e = i) (equipment g) = Some e"
    and "\<forall>k<n. buyTimes (Suc k) i g \<noteq> buyTimes k i g"
  shows "find (\<lambda>e. e_id e = i) (equipment (buyTimes n i g)) =
           Some (e\<lparr>e_owned := e_owned e + n\<rparr>)"
  using assms(2)
proof (induction n)
  case 0
  with assms(1) show ?case by simp
next
  case (Suc n)
  let ?g = "buyTimes n i g" and ?e = "e\<lparr>e_owned := e_owned e + n\<rparr>"
  from Suc have f: "find (\<lambda>e. e_id e = i) (equipment ?g) = Some ?e" by simp
  from Suc.prems have "buyEquipment ?g i \<noteq> ?g" by simp
  with buyEquipment_rejected_iff[OF f] have "\<not> money ?g < e_cost ?e * 1.5 ^ e_owned ?e" by simp
  from buyEquipment_accepted(2)[OF f this] show ?case by simp
qed

lemma costCharged_eq:
  assumes "find (\<lambda>e. e_id e = i) (equipment g) = Some e"
    and "\<forall>k<n. buyTimes (Suc k) i g \<noteq> buyTimes k i g"
    and "k < n"
  shows "costCharged k i g = e_cost e * 1.5 ^ (e_owned e + k)"
proof -
  let ?g = "buyTimes k i g" and ?e = "e\<lparr>e_owned := e_owned e + k\<rparr>"
  from assms(2,3) have "\<forall>j<k. buyTimes (Suc j) i g \<noteq> buyTimes j i g" by simp
  from buyTimes_owned[OF assms(1) this]
  have f: "find (\<lambda>e. e_id e = i) (equipment ?g) = Some ?e" .
  from assms(2,3) have "buyEquipment ?g i \<noteq> ?g" by simp
  with buyEquipment_rejected_iff[OF f] have "\<not> money ?g < e_cost ?e * 1.5 ^ e_owned ?e" by simp
  from buyEquipment_accepted(1)[OF f this] show ?thesis by (simp add: costCharged_def)
qed

lemma INITIAL_EQUIPMENT_costs:
  "list_all (\<lambda>e. 0 < e_cost e \<and> e_owned e = 0) INITIAL_EQUIPMENT"
  by (simp add: INITIAL_EQUIPMENT_def)

text \<open>
  C4. For every state and every equipment id that buyEquipment finds, the call leaves the
  state unchanged if and only if the money is below \<open>cost * 1.5 ^ owned\<close>; otherwise it
  takes exactly \<open>cost * 1.5 ^ owned\<close> and raises the owned count of that equipment by one,
  whatever else the state holds. And when the equipment has a positive base cost and none
  is owned (every entry of the catalog at the start), in every run of \<open>n\<close> successful
  purchases of it (a purchase is successful when it changes the state) purchase number \<open>k\<close>
  is charged \<open>cost * 1.5 ^ k\<close>, each more than the one before.
\<close>

theorem buyEquipment_cost_sequence:
  "(find (\<lambda>e. e_id e = equipmentId) (equipment g) = Some e \<longrightarrow>
      (buyEquipment g equipmentId = g \<longleftrightarrow> money g < e_cost e * 1.5 ^ e_owned e))
   \<and> (find (\<lambda>e. e_id e = equipmentId) (equipment g) = Some e
        \<and> \<not> money g < e_cost e * 1.5 ^ e_owned e \<longrightarrow>
      money (buyEquipment g equipmentId) = money g - e_cost e * 1.5 ^ e_owned e
      \<and> find (\<lambda>e. e_id e = equipmentId) (equipment (buyEquipment g equipmentId)) =
            Some (e\<lparr>e_owned := e_owned e + 1\<rparr>))
   \<and> (find (\<lambda>e. e_id e = equipmentId) (equipment g) = Some e \<and> e_owned e = 0 \<and> 0 < e_cost e
        \<and> (\<forall>k<n. buyTimes (Suc k) equipmentId g \<noteq> buyTimes k equipmentId g) \<longrightarrow>
      (\<forall>k<n. costCharged k equipmentId g = e_cost e * 1.5 ^ k)
      \<and> (\<forall>k. Suc k < n \<longrightarrow> costCharged k equipmentId g < costCharged (Suc k) equipmentId g))"
proof (intro conjI impI)
  assume "find (\<lambda>e. e_id e = equipmentId) (equipment g) = Some e"
  then show "buyEquipment g equipmentId = g \<longleftrightarrow> money g < e_cost e * 1.5 ^ e_owned e"
    by (rule buyEquipment_rejected_iff)
next
  assume a: "find (\<lambda>e. e_id e = equipmentId) (equipment g) = Some e
        \<and> \<not> money g < e_cost e * 1.5 ^ e_owned e"
  then show "money (buyEquipment g equipmentId) = money g - e_cost e * 1.5 ^ e_owned e"
    by (simp add: buyEquipment_accepted(1))
  from a show "find (\<lambda>e. e_id e = equipmentId) (equipment (buyEquipment g equipmentId)) =
            Some (e\<lparr>e_owned := e_owned e + 1\<rparr>)"
    by (simp add: buyEquipment_accepted(2))
next
  assume h: "find (\<lambda>e. e_id e = equipmentId) (equipment g) = Some e \<and> e_owned e = 0 \<and> 0 < e_cost e
        \<and> (\<forall>k<n. buyTimes (Suc k) equipmentId g \<noteq> buyTimes k equipmentId g)"
  then have c: "\<And>k. k < n \<Longrightarrow> costCharged k equipmentId g = e_cost e * 1.5 ^ k"
    using costCharged_eq[of equipmentId g e n] by simp
  then show "\<forall>k<n. costCharged k equipmentId g = e_cost e * 1.5 ^ k" by simp
  show "\<forall>k. Suc k < n \<longrightarrow> costCharged k equipmentId g < costCharged (Suc k) equipmentId g"
  proof (intro allI impI)
    fix k assume k: "Suc k < n"
    then have "costCharged k equipmentId g = e_cost e * 1.5 ^ k"
      and "costCharged (Suc k) equipmentId g = e_cost e * 1.5 ^ Suc k"
      using c by simp_all
    moreover have "e_cost e * 1.5 ^ k < e_cost e * 1.5 ^ Suc k"
      using h by simp
    ultimately show "costCharged k equipmentId g < costCharged (Suc k) equipmentId g" by simp
  qed
qed

theorem buyEquipment_cost_sequence_witness:
  "costCharged 0 ''basic_pickaxe'' (initialState\<lparr>money := 1000\<rparr>) = 50
   \<and> costCharged 1 ''basic_pickaxe'' (initialState\<lparr>money := 1000\<rparr>) = 75
   \<and> costCharged 2 ''basic_pickaxe'' (initialState\<lparr>money := 1000\<rparr>) = 112.5
   \<and> buyEquipment (initialState\<lparr>money := 49\<rparr>) ''basic_pickaxe'' = initialState\<lparr>money := 49\<rparr>
   \<and> buyEquipment (initialState\<lparr>money := 50\<rparr>) ''basic_pickaxe'' \<noteq> initialState\<lparr>money := 50\<rparr>"
proof -
  let ?i = "''basic_pickaxe''"
  let ?e = "\<lparr>e_id = ''basic_pickaxe'', e_type = Pickaxe, e_power = 1, e_cost = 50, e_owned = 0\<rparr>"
  let ?g = "initialState\<lparr>money := 1000\<rparr>"
  have f0: "find (\<lambda>e. e_id e = ?i) (equipment ?g) = Some ?e"
    by (simp add: initialState_def INITIAL_EQUIPMENT_def)
  have m0: "money ?g = 1000" by simp
  have a0: "\<not> money ?g < e_cost ?e * 1.5 ^ e_owned ?e" by simp
  note s1 = buyEquipment_accepted[OF f0 a0]
  let ?g1 = "buyEquipment ?g ?i"
  have m1: "money ?g1 = 950" using s1(1) by simp
  have f1: "find (\<lambda>e. e_id e = ?i) (equipment ?g1) = Some (?e\<lparr>e_owned := 1\<rparr>)"
    using s1(2) by simp
  have a1: "\<not> money ?g1 < e_cost (?e\<lparr>e_owned := 1\<rparr>) * 1.5 ^ e_owned (?e\<lparr>e_owned := 1\<rparr>)"
    using m1 by simp
  note s2 = buyEquipment_accepted[OF f1 a1]
  let ?g2 = "buyEquipment ?g1 ?i"
  have m2: "money ?g2 = 875" using s2(1) m1 by simp
  have f2: "find (\<lambda>e. e_id e = ?i) (equipment ?g2) = Some (?e\<lparr>e_owned := 2\<rparr>)"
    using s2(2) by simp
  have a2: "\<not> money ?g2 < e_cost (?e\<lparr>e_owned := 2\<rparr>) * 1.5 ^ e_owned (?e\<lparr>e_owned := 2\<rparr>)"
    using m2 by (simp add: power2_eq_square)
  note s3 = buyEquipment_accepted[OF f2 a2]
  let ?g3 = "buyEquipment ?g2 ?i"
  have m3: "money ?g3 = 762.5" using s3(1) m2 by (simp add: power2_eq_square)
  have d: "?g1 \<noteq> ?g" "?g2 \<noteq> ?g1" "?g3 \<noteq> ?g2"
    using m0 m1 m2 m3 by auto
  have all: "\<forall>k<3. buyTimes (Suc k) ?i ?g \<noteq> buyTimes k ?i ?g"
    using d by (simp add: numeral_3_eq_3 less_Suc_eq)
  have g49: "find (\<lambda>e. e_id e = ?i) (equipment (initialState\<lparr>money := 49\<rparr>)) = Some ?e"
    and g50: "find (\<lambda>e. e_id e = ?i) (equipment (initialState\<lparr>money := 50\<rparr>)) = Some ?e"
    by (simp_all add: initialState_def INITIAL_EQUIPMENT_def)
  from buyEquipment_cost_sequence[of ?i ?g ?e 3] f0 all
  have c: "\<forall>k<3. costCharged k ?i ?g = e_cost ?e * 1.5 ^ k" by simp
  have c0: "costCharged 0 ?i ?g = 50" and c1: "costCharged 1 ?i ?g = 75"
    and c2: "costCharged 2 ?i ?g = 112.5"
    using c by (simp_all add: power2_eq_square)
  from buyEquipment_cost_sequence[of ?i "initialState\<lparr>money := 49\<rparr>" ?e 0] g49
  have r49: "buyEquipment (initialState\<lparr>money := 49\<rparr>) ?i = initialState\<lparr>money := 49\<rparr>"
    by simp
  from buyEquipment_cost_sequence[of ?i "initialState\<lparr>money := 50\<rparr>" ?e 0] g50
  have r50: "buyEquipment (initialState\<lparr>money := 50\<rparr>) ?i \<noteq> initialState\<lparr>money := 50\<rparr>"
    by simp
  from c0 c1 c2 r49 r50 show ?thesis by simp
qed


subsection \<open>C7: when the minigame opens\<close>





lemma checkMinigameTrigger_opens:
  "minigameOpen (checkMinigameTrigger d t) \<longleftrightarrow> minigameOpen t \<or> opensMinigame d t"
  by (simp add: checkMinigameTrigger_def opensMinigame_def Let_def)



subsection \<open>C9: what a skill level does to the multipliers\<close>

lemma applySkillEffects_idem:
  "applySkillEffects skillId sk (applySkillEffects skillId sk u) = applySkillEffects skillId sk u"
  by (simp add: applySkillEffects_def)

lemma spendSkillPoint_found:
  assumes "find (\<lambda>s. sk_id s = skillId) SKILL_TREE = Some skill"
  shows "spendSkillPoint g skillId =
    (if skillPoints g \<le> 0 \<or> skillLevel (skills g) skillId \<ge> sk_maxLevel skill
        \<or> skillPoints g < sk_getCost skill (skillLevel (skills g) skillId)
     then g
     else g\<lparr>skillPoints := skillPoints g - sk_getCost skill (skillLevel (skills g) skillId),
            skills := (skills g)(skillId \<mapsto> skillLevel (skills g) skillId + 1),
            upgrades := applySkillEffects skillId
               ((skills g)(skillId \<mapsto> skillLevel (skills g) skillId + 1)) (upgrades g)\<rparr>)"
  using assms by (simp add: spendSkillPoint_def Let_def)

lemma spendSkillPoint_changed:
  assumes "spendSkillPoint g skillId \<noteq> g"
  shows "skills (spendSkillPoint g skillId) =
           (skills g)(skillId \<mapsto> skillLevel (skills g) skillId + 1)"
    and "upgrades (spendSkillPoint g skillId) =
           applySkillEffects skillId
             ((skills g)(skillId \<mapsto> skillLevel (skills g) skillId + 1)) (upgrades g)"
proof -
  obtain skill where f: "find (\<lambda>s. sk_id s = skillId) SKILL_TREE = Some skill"
    using assms by (cases "find (\<lambda>s. sk_id s = skillId) SKILL_TREE")
      (simp_all add: spendSkillPoint_def)
  let ?c = "skillPoints g \<le> 0 \<or> skillLevel (skills g) skillId \<ge> sk_maxLevel skill
        \<or> skillPoints g < sk_getCost skill (skillLevel (skills g) skillId)"
  have "\<not> ?c"
  proof
    assume ?c
    then have "spendSkillPoint g skillId = g" by (simp only: spendSkillPoint_found[OF f] if_True)
    with assms show False by simp
  qed
  then have eq: "spendSkillPoint g skillId =
      g\<lparr>skillPoints := skillPoints g - sk_getCost skill (skillLevel (skills g) skillId),
            skills := (skills g)(skillId \<mapsto> skillLevel (skills g) skillId + 1),
            upgrades := applySkillEffects skillId
               ((skills g)(skillId \<mapsto> skillLevel (skills g) skillId + 1)) (upgrades g)\<rparr>"
    by (simp only: spendSkillPoint_found[OF f] if_False)
  show "skills (spendSkillPoint g skillId) =
           (skills g)(skillId \<mapsto> skillLevel (skills g) skillId + 1)"
    by (subst eq) simp
  show "upgrades (spendSkillPoint g skillId) =
           applySkillEffects skillId
             ((skills g)(skillId \<mapsto> skillLevel (skills g) skillId + 1)) (upgrades g)"
    by (subst eq) simp
qed

text \<open>
  C9. Whenever spendSkillPoint changes the state, the skill is one level higher, at \<open>L\<close>
  say, and the multiplier the skill governs is the table's value at \<open>L\<close>: the click
  multiplier \<open>1 + 0.05 L\<close> for click_power_boost, the auto multiplier \<open>1 + 0.05 L\<close> for
  auto_mine_speed, the experience multiplier \<open>1 + 0.10 L\<close> for xp_gain, the rare-find
  chance \<open>L\<close> for rare_resource_chance. The new multipliers are computed from the new skill
  levels alone, and computing them again at the same levels changes nothing.
\<close>

theorem spendSkillPoint_effect_absolute:
  assumes "spendSkillPoint g skillId = g'" and "g' \<noteq> g"
    and "L = skillLevel (skills g') skillId"
  shows "L = skillLevel (skills g) skillId + 1
       \<and> (skillId = ''click_power_boost'' \<longrightarrow>
            clickMultiplier (upgrades g') = 1 + 0.05 * real_of_int L)
       \<and> (skillId = ''auto_mine_speed'' \<longrightarrow>
            autoMultiplier (upgrades g') = 1 + 0.05 * real_of_int L)
       \<and> (skillId = ''xp_gain'' \<longrightarrow>
            xpGainMultiplier (upgrades g') = 1 + 0.10 * real_of_int L)
       \<and> (skillId = ''rare_resource_chance'' \<longrightarrow>
            rareResourceChance (upgrades g') = real_of_int L)
       \<and> upgrades g' = applySkillEffects skillId (skills g') (upgrades g)
       \<and> applySkillEffects skillId (skills g') (upgrades g') = upgrades g'"
proof -
  from assms(1,2) have ne: "spendSkillPoint g skillId \<noteq> g" by simp
  note eq = spendSkillPoint_changed[OF ne]
  have sk: "skills g' = (skills g)(skillId \<mapsto> skillLevel (skills g) skillId + 1)"
    using eq(1) assms(1) by simp
  have up: "upgrades g' = applySkillEffects skillId (skills g') (upgrades g)"
    using eq(2) assms(1) sk by simp
  have L: "L = skillLevel (skills g) skillId + 1"
    using assms(3) sk by (simp add: skillLevel_def)
  have lv: "skillLevel (skills g') skillId = L" using assms(3) by simp
  have c1: "skillId = ''click_power_boost'' \<longrightarrow>
            clickMultiplier (upgrades g') = 1 + 0.05 * real_of_int L"
    and c2: "skillId = ''auto_mine_speed'' \<longrightarrow>
            autoMultiplier (upgrades g') = 1 + 0.05 * real_of_int L"
    and c3: "skillId = ''xp_gain'' \<longrightarrow>
            xpGainMultiplier (upgrades g') = 1 + 0.10 * real_of_int L"
    and c4: "skillId = ''rare_resource_chance'' \<longrightarrow>
            rareResourceChance (upgrades g') = real_of_int L"
    using up lv by (auto simp: applySkillEffects_def)
  have idem: "applySkillEffects skillId (skills g') (upgrades g') = upgrades g'"
    using up applySkillEffects_idem[of skillId "skills g'" "upgrades g"] by simp
  from L c1 c2 c3 c4 up idem show ?thesis by blast
qed

theorem spendSkillPoint_effect_absolute_witness:
  "clickMultiplier (upgrades (spendSkillPoint (initialState\<lparr>skillPoints := 1\<rparr>)
      ''click_power_boost'')) = 1.05
   \<and> skillLevel (skills (spendSkillPoint (initialState\<lparr>skillPoints := 1\<rparr>)
      ''click_power_boost'')) ''click_power_boost'' = 1"
proof -
  let ?g = "initialState\<lparr>skillPoints := 1\<rparr>"
  let ?g' = "spendSkillPoint ?g ''click_power_boost''"
  have v: "?g' = ?g\<lparr>skillPoints := 0, skills := [''click_power_boost'' \<mapsto> 1],
                   upgrades := (upgrades ?g)\<lparr>clickMultiplier := 1.05\<rparr>\<rparr>"
    by (simp add: spendSkillPoint_def SKILL_TREE_def skillLevel_def applySkillEffects_def
        initialState_def)
  have ne: "?g' \<noteq> ?g"
  proof
    assume "?g' = ?g"
    then have "skillPoints ?g' = skillPoints ?g" by simp
    with v show False by simp
  qed
  have L: "(1::int) = skillLevel (skills ?g') ''click_power_boost''"
    by (subst v) (simp add: skillLevel_def)
  note th = spendSkillPoint_effect_absolute[OF refl ne L]
  have c: "clickMultiplier (upgrades ?g') = 1.05"
    using th[THEN conjunct2, THEN conjunct1] by simp
  from c L show ?thesis by simp
qed

subsection \<open>C10: selling a negative amount\<close>








subsection \<open>C1: prerequisites of a skill\<close>

text \<open>
  C1 does not hold of the code. spendSkillPoint never looks at \<open>dependencies\<close>; only the
  skill panel does (\<open>dependenciesMet\<close>, part of \<open>canAfford\<close>, which disables the button).
  At the state reached by the first level-up (one skill point, no skill bought), the
  prerequisites of xp_gain are at level 0 and the panel refuses, yet
  \<open>spendSkillPoint ''xp_gain''\<close> takes the point, sets the skill to level 1 and the
  experience multiplier to 1.1.
\<close>

theorem spendSkillPoint_ignores_dependencies:
  "gainXp initialState 100 initialState =
     Some (initialState\<lparr>level := 2, xpToNextLevel := 150, skillPoints := 1\<rparr>)
   \<and> find (\<lambda>s. sk_id s = ''xp_gain'') SKILL_TREE =
       Some \<lparr>sk_id = ''xp_gain'', sk_maxLevel = 5, sk_getCost = (\<lambda>level. level * 2 + 1),
             sk_dependencies = Some [''click_power_boost'', ''auto_mine_speed'']\<rparr>
   \<and> skillLevel (skills (initialState\<lparr>level := 2, xpToNextLevel := 150, skillPoints := 1\<rparr>))
         ''click_power_boost'' = 0
   \<and> \<not> dependenciesMet (initialState\<lparr>level := 2, xpToNextLevel := 150, skillPoints := 1\<rparr>)
         \<lparr>sk_id = ''xp_gain'', sk_maxLevel = 5, sk_getCost = (\<lambda>level. level * 2 + 1),
          sk_dependencies = Some [''click_power_boost'', ''auto_mine_speed'']\<rparr>
   \<and> \<not> canAfford (initialState\<lparr>level := 2, xpToNextLevel := 150, skillPoints := 1\<rparr>)
         \<lparr>sk_id = ''xp_gain'', sk_maxLevel = 5, sk_getCost = (\<lambda>level. level * 2 + 1),
          sk_dependencies = Some [''click_power_boost'', ''auto_mine_speed'']\<rparr>
   \<and> spendSkillPoint (initialState\<lparr>level := 2, xpToNextLevel := 150, skillPoints := 1\<rparr>)
         ''xp_gain'' =
       initialState\<lparr>level := 2, xpToNextLevel := 150, skillPoints := 0,
         skills := [''xp_gain'' \<mapsto> 1],
         upgrades := (upgrades initialState)\<lparr>xpGainMultiplier := 1.1\<rparr>\<rparr>
   \<and> spendSkillPoint (initialState\<lparr>level := 2, xpToNextLevel := 150, skillPoints := 1\<rparr>)
         ''xp_gain'' \<noteq>
       initialState\<lparr>level := 2, xpToNextLevel := 150, skillPoints := 1\<rparr>"
proof -
  let ?g = "initialState\<lparr>level := 2, xpToNextLevel := 150, skillPoints := 1\<rparr>"
  let ?sk = "\<lparr>sk_id = ''xp_gain'', sk_maxLevel = 5, sk_getCost = (\<lambda>level. level * 2 + 1),
             sk_dependencies = Some [''click_power_boost'', ''auto_mine_speed'']\<rparr>"
  have a: "gainXp initialState 100 initialState = Some ?g"
    by (simp add: gainXp_def initialState_def levelUpLoop_step levelUpLoop_stop)
  have b: "find (\<lambda>s. sk_id s = ''xp_gain'') SKILL_TREE = Some ?sk"
    by (simp add: SKILL_TREE_def)
  have c: "skillLevel (skills ?g) ''click_power_boost'' = 0"
    by (simp add: skillLevel_def initialState_def)
  have d: "\<not> dependenciesMet ?g ?sk"
    by (simp add: dependenciesMet_def skillLevel_def initialState_def)
  have e: "\<not> canAfford ?g ?sk"
    using d by (simp add: canAfford_def)
  have f: "spendSkillPoint ?g ''xp_gain'' =
       initialState\<lparr>level := 2, xpToNextLevel := 150, skillPoints := 0,
         skills := [''xp_gain'' \<mapsto> 1],
         upgrades := (upgrades initialState)\<lparr>xpGainMultiplier := 1.1\<rparr>\<rparr>"
    by (simp add: spendSkillPoint_def b skillLevel_def applySkillEffects_def initialState_def)
  have g: "spendSkillPoint ?g ''xp_gain'' \<noteq> ?g"
  proof
    assume "spendSkillPoint ?g ''xp_gain'' = ?g"
    then have "skillPoints (spendSkillPoint ?g ''xp_gain'') = skillPoints ?g"
      by (rule arg_cong)
    then show False by (simp add: f)
  qed
  from a b c d e f g show ?thesis by (intro conjI)
qed

text \<open>
  The second half of C1 holds: when the panel allows the purchase (prerequisites above 0,
  points sufficient, level below the maximum) and there is a point to spend, spendSkillPoint
  accepts it.
\<close>

lemma spendSkillPoint_accepts_when_allowed:
  assumes "find (\<lambda>s. sk_id s = skillId) SKILL_TREE = Some skill"
    and "canAfford g skill" and "0 < skillPoints g"
  shows "spendSkillPoint g skillId \<noteq> g"
    and "skillLevel (skills (spendSkillPoint g skillId)) skillId = skillLevel (skills g) skillId + 1"
proof -
  have id: "sk_id skill = skillId"
    using assms(1) by (auto simp: find_Some_iff)
  have c: "\<not> (skillPoints g \<le> 0 \<or> skillLevel (skills g) skillId \<ge> sk_maxLevel skill
        \<or> skillPoints g < sk_getCost skill (skillLevel (skills g) skillId))"
    using assms(2,3) id by (simp add: canAfford_def Let_def)
  have eq: "spendSkillPoint g skillId =
      g\<lparr>skillPoints := skillPoints g - sk_getCost skill (skillLevel (skills g) skillId),
            skills := (skills g)(skillId \<mapsto> skillLevel (skills g) skillId + 1),
            upgrades := applySkillEffects skillId
               ((skills g)(skillId \<mapsto> skillLevel (skills g) skillId + 1)) (upgrades g)\<rparr>"
    using c by (simp only: spendSkillPoint_found[OF assms(1)] if_False)
  show lv: "skillLevel (skills (spendSkillPoint g skillId)) skillId = skillLevel (skills g) skillId + 1"
    by (subst eq) (simp add: skillLevel_def)
  show "spendSkillPoint g skillId \<noteq> g"
  proof
    assume "spendSkillPoint g skillId = g"
    with lv show False by simp
  qed
qed

subsection \<open>C2: the duration of the minigame\<close>

lemma startTimeLeft_ignores_state:
  "startTimeLeft (minigameProps g t) timeLeft = (if minigameOpen t then 10 else timeLeft)"
  by (simp add: startTimeLeft_def minigameProps_def)

lemma secondsToWin_unfold:
  "secondsToWin t = (if t \<le> 1 then 1 else 1 + secondsToWin (t - 1))"
  by (subst secondsToWin.simps) (simp add: timerTick_def)

text \<open>
  C2 does not hold of the code. The level of minigame_bonus is stored by spendSkillPoint
  and used nowhere: the Minigame component is given only \<open>open\<close> and the depth, and sets
  \<open>timeLeft\<close> to 10 each time it opens. With minigame_bonus bought once (level 1), the
  countdown is 10 seconds, not 11.
\<close>

theorem minigame_duration_ignores_bonus:
  "spendSkillPoint
     (initialState\<lparr>skillPoints := 2,
        skills := [''click_power_boost'' \<mapsto> 1, ''auto_mine_speed'' \<mapsto> 1, ''xp_gain'' \<mapsto> 1]\<rparr>)
     ''minigame_bonus'' =
   initialState\<lparr>skillPoints := 0,
     skills := [''click_power_boost'' \<mapsto> 1, ''auto_mine_speed'' \<mapsto> 1, ''xp_gain'' \<mapsto> 1,
                ''minigame_bonus'' \<mapsto> 1]\<rparr>
   \<and> skillLevel
        (skills (initialState\<lparr>skillPoints := 0,
           skills := [''click_power_boost'' \<mapsto> 1, ''auto_mine_speed'' \<mapsto> 1, ''xp_gain'' \<mapsto> 1,
                      ''minigame_bonus'' \<mapsto> 1]\<rparr>))
        ''minigame_bonus'' = 1
   \<and> startTimeLeft
        (minigameProps
           (initialState\<lparr>skillPoints := 0,
              skills := [''click_power_boost'' \<mapsto> 1, ''auto_mine_speed'' \<mapsto> 1, ''xp_gain'' \<mapsto> 1,
                         ''minigame_bonus'' \<mapsto> 1]\<rparr>)
           \<lparr>lastDepthForMinigame = 10, minigameOpen = True\<rparr>)
        0 = 10
   \<and> secondsToWin 10 = 10"
proof -
  have a: "spendSkillPoint
     (initialState\<lparr>skillPoints := 2,
        skills := [''click_power_boost'' \<mapsto> 1, ''auto_mine_speed'' \<mapsto> 1, ''xp_gain'' \<mapsto> 1]\<rparr>)
     ''minigame_bonus'' =
   initialState\<lparr>skillPoints := 0,
     skills := [''click_power_boost'' \<mapsto> 1, ''auto_mine_speed'' \<mapsto> 1, ''xp_gain'' \<mapsto> 1,
                ''minigame_bonus'' \<mapsto> 1]\<rparr>"
    by (simp add: spendSkillPoint_def SKILL_TREE_def skillLevel_def applySkillEffects_def
        initialState_def)
  have b: "skillLevel
        (skills (initialState\<lparr>skillPoints := 0,
           skills := [''click_power_boost'' \<mapsto> 1, ''auto_mine_speed'' \<mapsto> 1, ''xp_gain'' \<mapsto> 1,
                      ''minigame_bonus'' \<mapsto> 1]\<rparr>))
        ''minigame_bonus'' = 1"
    by (simp add: skillLevel_def)
  have c: "startTimeLeft
        (minigameProps
           (initialState\<lparr>skillPoints := 0,
              skills := [''click_power_boost'' \<mapsto> 1, ''auto_mine_speed'' \<mapsto> 1, ''xp_gain'' \<mapsto> 1,
                         ''minigame_bonus'' \<mapsto> 1]\<rparr>)
           \<lparr>lastDepthForMinigame = 10, minigameOpen = True\<rparr>)
        0 = 10"
    by (simp add: startTimeLeft_ignores_state)
  have d: "secondsToWin 10 = 10"
    by (simp add: secondsToWin_unfold)
  from a b c d show ?thesis by (intro conjI)
qed

subsection \<open>Reachable states are well formed, and gainXp returns on them\<close>

text \<open>
  On a threshold of at least 100 the level-up loop ends after finitely many rounds, each
  round taking at least 100 off the experience; so every callback returns on a well-formed
  state, and the state it returns is well formed again.
\<close>

lemma levelUpLoop_terminates_aux:
  assumes "100 \<le> t" and "x < t + 100 * real n"
  shows "\<exists>x' l' t' sp'. levelUpLoop x l t sp = Some (x', l', t', sp') \<and> 100 \<le> t' \<and> x' < t'"
  using assms
proof (induction n arbitrary: x l t sp)
  case 0
  then have "x < t" by simp
  then have "levelUpLoop x l t sp = Some (x, l, t, sp)" by (rule levelUpLoop_stop)
  with 0 \<open>x < t\<close> show ?case by blast
next
  case (Suc n)
  show ?case
  proof (cases "x < t")
    case True
    then have "levelUpLoop x l t sp = Some (x, l, t, sp)" by (rule levelUpLoop_stop)
    with Suc.prems True show ?thesis by blast
  next
    case False
    define t1 :: real where "t1 = real_of_int \<lfloor>t * 1.5\<rfloor>"
    have "(150::real) \<le> t * 1.5" using Suc.prems(1) by simp
    then have "150 \<le> \<lfloor>t * 1.5\<rfloor>" by (simp add: le_floor_iff)
    then have t1: "100 \<le> t1" by (simp add: t1_def)
    have "x < t + 100 + 100 * real n" using Suc.prems(2) by (simp add: algebra_simps)
    with t1 have "x - t < t1 + 100 * real n" by linarith
    from Suc.IH[OF t1 this, of "l + 1" "sp + 1"]
    obtain x' l' t' sp' where
      r: "levelUpLoop (x - t) (l + 1) t1 (sp + 1) = Some (x', l', t', sp')"
      and b: "100 \<le> t'" "x' < t'" by blast
    from False have "levelUpLoop x l t sp = levelUpLoop (x - t) (l + 1) t1 (sp + 1)"
      unfolding t1_def by (intro levelUpLoop_step) simp
    with r b show ?thesis by auto
  qed
qed

lemma levelUpLoop_terminates:
  assumes "100 \<le> t"
  shows "\<exists>x' l' t' sp'. levelUpLoop x l t sp = Some (x', l', t', sp') \<and> 100 \<le> t' \<and> x' < t'"
proof -
  obtain n :: nat where "x / 100 < real n" using reals_Archimedean2 by blast
  then have "x < t + 100 * real n" using assms by simp
  from levelUpLoop_terminates_aux[OF assms this] show ?thesis .
qed

lemma gainXp_wellFormed:
  assumes "wellFormed prev"
  shows "\<exists>x' l' t' sp'.
           gainXp g amount prev =
             Some (prev\<lparr>xp := x', level := l', xpToNextLevel := t', skillPoints := sp'\<rparr>)
           \<and> 100 \<le> t' \<and> x' < t'"
proof -
  from assms have "100 \<le> xpToNextLevel prev" by (simp add: wellFormed_def)
  from levelUpLoop_terminates[OF this,
      of "xp prev + amount * xpGainMultiplier (upgrades g)" "level prev" "skillPoints prev"]
  obtain x' l' t' sp' where
    r: "levelUpLoop (xp prev + amount * xpGainMultiplier (upgrades g)) (level prev)
       (xpToNextLevel prev) (skillPoints prev) = Some (x', l', t', sp')"
    and b: "100 \<le> t'" "x' < t'" by blast
  from r have "gainXp g amount prev =
      Some (prev\<lparr>xp := x', level := l', xpToNextLevel := t', skillPoints := sp'\<rparr>)"
    by (simp add: gainXp_def)
  with b show ?thesis by blast
qed

lemma wellFormed_xp_update:
  assumes "wellFormed prev" and "100 \<le> t'" and "x' < t'"
  shows "wellFormed (prev\<lparr>xp := x', level := l', xpToNextLevel := t', skillPoints := sp'\<rparr>)"
  using assms by (simp add: wellFormed_def)

lemma wellFormed_setResourceAmount:
  "wellFormed (setResourceAmount s rid v) = wellFormed s"
  by (simp add: wellFormed_def setResourceAmount_def)

lemma wellFormed_initialState: "wellFormed initialState"
  by (simp add: wellFormed_def initialState_def multipliersOk_def INITIAL_MONEY_UPGRADES_def)

lemma wellFormed_gainXp:
  assumes "wellFormed prev"
  shows "\<exists>s'. gainXp g amount prev = Some s' \<and> wellFormed s'"
proof -
  from gainXp_wellFormed[OF assms, of g amount]
  obtain x' l' t' sp' where
    r: "gainXp g amount prev =
          Some (prev\<lparr>xp := x', level := l', xpToNextLevel := t', skillPoints := sp'\<rparr>)"
    and b: "100 \<le> t'" "x' < t'" by blast
  from wellFormed_xp_update[OF assms b] r show ?thesis by blast
qed

lemma wellFormed_mineResource:
  assumes "wellFormed g"
  shows "\<exists>s'. mineResource rnd g = Some s' \<and> wellFormed s'"
proof -
  let ?power0 = "clickPower g * clickMultiplier (upgrades g)"
  let ?power = "if rnd < rareResourceChance (upgrades g) / 100 then ?power0 * 2 else ?power0"
  from wellFormed_gainXp[OF assms, of g ?power]
  obtain s1 where r: "gainXp g ?power g = Some s1" and w: "wellFormed s1" by blast
  from w have "wellFormed ((setResourceAmount s1 (r_id (getCurrentResource (depth g)))
                 (resourceAmount s1 (r_id (getCurrentResource (depth g))) + ?power))
               \<lparr>totalMined := totalMined s1 + ?power, depth := depth s1 + ?power * 0.1\<rparr>)"
    using wellFormed_setResourceAmount[of s1] by (simp add: wellFormed_def)
  with r show ?thesis by (simp add: mineResource_def Let_def)
qed

lemma wellFormed_autoMineTick:
  assumes "wellFormed g"
  shows "\<exists>s'. autoMineTick g = Some s' \<and> wellFormed s'"
proof (cases "autoMineRate g = 0")
  case True
  with assms show ?thesis by (simp add: autoMineTick_def)
next
  case False
  let ?power = "autoMineRate g * autoMultiplier (upgrades g)"
  from wellFormed_gainXp[OF assms, of g "?power / 2"]
  obtain s1 where r: "gainXp g (?power / 2) g = Some s1" and w: "wellFormed s1" by blast
  from w have "wellFormed ((setResourceAmount s1 (r_id (getCurrentResource (depth g)))
                 (resourceAmount s1 (r_id (getCurrentResource (depth g))) + ?power))
               \<lparr>totalMined := totalMined s1 + ?power, depth := depth s1 + ?power * 0.05\<rparr>)"
    using wellFormed_setResourceAmount[of s1] by (simp add: wellFormed_def)
  with r False show ?thesis by (simp add: autoMineTick_def Let_def)
qed

lemma wellFormed_sellResource:
  assumes "wellFormed g"
  shows "\<exists>s'. sellResource g resourceId amount = Some s' \<and> wellFormed s'"
proof (cases "find (\<lambda>r. r_id r = resourceId) RESOURCES")
  case None
  with assms show ?thesis by (simp add: sellResource_def)
next
  case (Some resource)
  show ?thesis
  proof (cases "resourceAmount g resourceId < amount")
    case True
    with Some assms show ?thesis by (simp add: sellResource_def)
  next
    case False
    let ?m = "amount * r_value resource * sellPriceMultiplier (upgrades g)"
    from wellFormed_gainXp[OF assms, of g "?m / 10"]
    obtain s1 where r: "gainXp g (?m / 10) g = Some s1" and w: "wellFormed s1" by blast
    from w have "wellFormed ((setResourceAmount s1 resourceId
                   (resourceAmount s1 resourceId - amount))\<lparr>money := money s1 + ?m\<rparr>)"
      using wellFormed_setResourceAmount[of s1] by (simp add: wellFormed_def)
    with r Some False show ?thesis by (simp add: sellResource_def Let_def)
  qed
qed

lemma wellFormed_buyEquipment:
  assumes "wellFormed g"
  shows "wellFormed (buyEquipment g equipmentId)"
  using assms
  by (simp add: buyEquipment_def Let_def wellFormed_def split: option.splits)

lemma list_all_map_level:
  "list_all (\<lambda>u. P (mu_effect u))
     (map (\<lambda>u. if mu_id u = i then u\<lparr>mu_level := mu_level u + 1\<rparr> else u) xs) =
   list_all (\<lambda>u. P (mu_effect u)) xs"
  by (induction xs) simp_all

lemma wellFormed_buyMoneyUpgrade:
  assumes "wellFormed g"
  shows "wellFormed (buyMoneyUpgrade g upgradeId)"
proof (cases "find (\<lambda>u. mu_id u = upgradeId) (moneyUpgrades g)")
  case None
  with assms show ?thesis by (simp add: buyMoneyUpgrade_def)
next
  case (Some upgrade)
  then have "upgrade \<in> set (moneyUpgrades g)" by (auto simp: find_Some_iff)
  with assms have "multipliersOk (mu_effect upgrade (upgrades g))"
    by (auto simp: wellFormed_def list_all_iff)
  with assms Some show ?thesis
    using list_all_map_level[of "\<lambda>f. \<forall>ups. multipliersOk ups \<longrightarrow> multipliersOk (f ups)"
        upgradeId "moneyUpgrades g"]
    by (simp add: buyMoneyUpgrade_def Let_def wellFormed_def)
qed

lemma multipliersOk_applySkillEffects:
  assumes "multipliersOk u" and "0 \<le> skillLevel sk skillId"
  shows "multipliersOk (applySkillEffects skillId sk u)"
  using assms by (auto simp: multipliersOk_def applySkillEffects_def)

lemma wellFormed_spendSkillPoint:
  assumes "wellFormed g"
  shows "wellFormed (spendSkillPoint g skillId)"
proof (cases "spendSkillPoint g skillId = g")
  case True
  with assms show ?thesis by simp
next
  case False
  note ch = spendSkillPoint_changed[OF False]
  let ?sk = "(skills g)(skillId \<mapsto> skillLevel (skills g) skillId + 1)"
  from assms have lv: "0 \<le> skillLevel (skills g) skillId"
    by (auto simp: wellFormed_def skillLevel_def split: option.splits)
  then have "0 \<le> skillLevel ?sk skillId" by (simp add: skillLevel_def)
  with assms have m: "multipliersOk (upgrades (spendSkillPoint g skillId))"
    by (simp add: ch(2) multipliersOk_applySkillEffects wellFormed_def)
  have s: "\<forall>k v. skills (spendSkillPoint g skillId) k = Some v \<longrightarrow> 0 \<le> v"
    using assms lv by (simp add: ch(1) wellFormed_def)
  obtain skill where f: "find (\<lambda>s. sk_id s = skillId) SKILL_TREE = Some skill"
    using False by (cases "find (\<lambda>s. sk_id s = skillId) SKILL_TREE")
      (simp_all add: spendSkillPoint_def)
  have rest: "xpToNextLevel (spendSkillPoint g skillId) = xpToNextLevel g"
    "xp (spendSkillPoint g skillId) = xp g"
    "moneyUpgrades (spendSkillPoint g skillId) = moneyUpgrades g"
    by (simp_all add: spendSkillPoint_found[OF f])
  from assms m s rest show ?thesis by (simp add: wellFormed_def)
qed

lemma wellFormed_handleMinigameClose:
  assumes "wellFormed g"
  shows "\<exists>s'. handleMinigameClose g result = Some s' \<and> wellFormed s'"
proof (cases result)
  case Win
  with wellFormed_gainXp[OF assms, of g 50] show ?thesis by (simp add: handleMinigameClose_def)
next
  case Lose
  with assms show ?thesis by (simp add: handleMinigameClose_def wellFormed_def)
qed

lemma reachable_wellFormed: "reachable g \<Longrightarrow> wellFormed g"
proof (induction rule: reachable.induct)
  case start
  show ?case by (rule wellFormed_initialState)
next
  case (mine g rnd g')
  with wellFormed_mineResource[of g rnd] show ?case by auto
next
  case (tick g g')
  with wellFormed_autoMineTick[of g] show ?case by auto
next
  case (sell g resourceId amount g')
  with wellFormed_sellResource[of g resourceId amount] show ?case by auto
next
  case (buy g equipmentId)
  then show ?case by (simp add: wellFormed_buyEquipment)
next
  case (upgrade g upgradeId)
  then show ?case by (simp add: wellFormed_buyMoneyUpgrade)
next
  case (skill g skillId)
  then show ?case by (simp add: wellFormed_spendSkillPoint)
next
  case (close g result g')
  with wellFormed_handleMinigameClose[of g result] show ?case by auto
qed

lemma reachable_bounds:
  assumes "reachable g"
  shows "1 \<le> \<lfloor>xpToNextLevel g * 1.5\<rfloor>" and "xp g < xpToNextLevel g"
    and "0 < sellPriceMultiplier (upgrades g)" and "0 < xpGainMultiplier (upgrades g)"
proof -
  from reachable_wellFormed[OF assms]
  have t: "100 \<le> xpToNextLevel g" and x: "xp g < xpToNextLevel g"
    and m: "1 \<le> sellPriceMultiplier (upgrades g)" "1 \<le> xpGainMultiplier (upgrades g)"
    by (simp_all add: wellFormed_def multipliersOk_def)
  from t have "(1::real) \<le> xpToNextLevel g * 1.5" by simp
  then show "1 \<le> \<lfloor>xpToNextLevel g * 1.5\<rfloor>" by (simp add: le_floor_iff)
  from x show "xp g < xpToNextLevel g" .
  from m show "0 < sellPriceMultiplier (upgrades g)" and "0 < xpGainMultiplier (upgrades g)"
    by linarith+
qed

lemma reachable_gainXp_returns:
  assumes "reachable g"
  shows "\<exists>g'. gainXp g amount g = Some g'"
  using wellFormed_gainXp[OF reachable_wellFormed[OF assms], of g amount] by blast

end
